theory Spec2Isabelle
  imports Main
begin

section \<open>The NATS request/reply processor\<close>

text \<open>
  A shallow embedding of \<^verbatim>\<open>internal/impl/nats/processor_request_reply.go\<close>: the
  processor struct, its constructor, \<^verbatim>\<open>connect\<close>, \<^verbatim>\<open>Process\<close> and \<^verbatim>\<open>Close\<close>.
  The processor is a value that every method takes and returns; a method that does not
  return because it waits for the mutex (or for a reply that never comes, under a
  context with no deadline) has the value \<open>None\<close>; a nil pointer dereference is the
  result \<open>Panic\<close>.
\<close>

subsection \<open>Errors\<close>

text \<open>
  Go errors are values. \<open>Failure s\<close> is an error made by a collaborator (template
  evaluation, serialisation, the NATS client, the configuration parser), known by its
  message; \<open>HeaderInterpolation k e\<close> is
  \<^verbatim>\<open>fmt.Errorf("header %v interpolation error: %w", k, err)\<close>, which names the
  header \<open>k\<close> and wraps \<open>e\<close>; \<open>DeadlineExceeded\<close> is what a context reports once its
  deadline has passed.
\<close>

datatype error =
    Failure string
  | HeaderInterpolation string error
  | DeadlineExceeded

subsection \<open>NATS messages and headers\<close>

text \<open>
  \<^verbatim>\<open>nats.Header\<close> is \<^verbatim>\<open>map[string][]string\<close>; \<^verbatim>\<open>Add\<close> appends the value to
  the slice stored under the key (an absent key reads as the empty slice).
\<close>

type_synonym nats_Header = "string \<rightharpoonup> string list"

definition Values :: "nats_Header \<Rightarrow> string \<Rightarrow> string list" where
  "Values h key = (case h key of None \<Rightarrow> [] | Some vs \<Rightarrow> vs)"

definition Header_Add :: "nats_Header \<Rightarrow> string \<Rightarrow> string \<Rightarrow> nats_Header" where
  "Header_Add h key v = h(key \<mapsto> Values h key @ [v])"

record nats_Msg =
  Subject :: string
  Data :: string
  Header :: nats_Header

definition NewMsg :: "string \<Rightarrow> nats_Msg" where
  "NewMsg subj = \<lparr>Subject = subj, Data = [], Header = Map.empty\<rparr>"

subsection \<open>Connection options and the connection handle\<close>

type_synonym Duration = int
type_synonym tls_Config = nat
type_synonym auth_Config = nat
type_synonym Logger = nat
type_synonym FS = nat

text \<open>
  \<^verbatim>\<open>time.Duration\<close> counts nanoseconds; the processor never calculates with it, so it
  is an \<open>int\<close>. TLS material, authentication material, the logger and the file system
  are tokens: the processor only passes them on. \<open>AuthOption\<close> stands for an option
  that \<^verbatim>\<open>authConfToOptions\<close> makes.
\<close>

datatype nats_Option =
    Secure tls_Config
  | CustomInboxPrefix string
  | Name string
  | AuthOption nat
  | ErrorHandler Logger
  | Timeout Duration

text \<open>
  A connection handle, as far as the processor looks into it: what it was dialled with
  and whether the server announced header support.
\<close>

record nats_Conn =
  dialled :: string
  options :: "nats_Option list"
  info_Headers :: bool

definition HeadersSupported :: "nats_Conn \<Rightarrow> bool" where
  "HeadersSupported nc = info_Headers nc"

subsection \<open>The reader/writer mutex\<close>

text \<open>
  \<^verbatim>\<open>sync.RWMutex\<close> in a sequential run: taking it in a mode it cannot be taken in
  never returns (\<open>None\<close>).
\<close>

record RWMutex =
  readers :: nat
  writer :: bool

definition RLock :: "RWMutex \<Rightarrow> RWMutex option" where
  "RLock mu = (if writer mu then None else Some (mu\<lparr>readers := Suc (readers mu)\<rparr>))"

definition RUnlock :: "RWMutex \<Rightarrow> RWMutex" where
  "RUnlock mu = mu\<lparr>readers := readers mu - 1\<rparr>"

definition Lock :: "RWMutex \<Rightarrow> RWMutex option" where
  "Lock mu = (if writer mu \<or> 0 < readers mu then None else Some (mu\<lparr>writer := True\<rparr>))"

definition Unlock :: "RWMutex \<Rightarrow> RWMutex" where
  "Unlock mu = mu\<lparr>writer := False\<rparr>"

subsection \<open>The processor\<close>

text \<open>
  \<open>'m\<close> is the host pipeline's message type (\<^verbatim>\<open>*service.Message\<close>). An interpolated
  string is what \<^verbatim>\<open>TryString\<close> makes of it for a message. The \<^verbatim>\<open>headers\<close> map is an
  association list whose order is the order in which \<^verbatim>\<open>range\<close> visits the map during
  the call; Go leaves that order open, and every statement below holds for every order.
  A metadata filter is the selection rule on metadata keys.
\<close>

type_synonym 'm InterpolatedString = "'m \<Rightarrow> error + string"
type_synonym MetadataFilter = "string \<Rightarrow> bool"

definition TryString :: "'m InterpolatedString \<Rightarrow> 'm \<Rightarrow> error + string" where
  "TryString t msg = t msg"

record 'm requestReplyProcessor =
  label :: string
  urls :: string
  headers :: "(string \<times> 'm InterpolatedString) list"
  metaFilter :: "MetadataFilter option"
  subject :: "'m InterpolatedString"
  inboxPrefix :: string
  timeout :: Duration
  tlsConf :: "tls_Config option"
  authConf :: auth_Config
  log :: Logger
  fs :: FS
  natsConn :: "nats_Conn option"
  connMut :: RWMutex

subsection \<open>Collaborators\<close>

text \<open>
  What a request meets at the broker: a reply or a connection failure some nanoseconds
  after the request was handed over, or nothing at all.
\<close>

datatype exchange =
    Reply nat nats_Msg
  | ConnectionFails nat error
  | NoReply

text \<open>
  The functions the processor calls and this file does not hold, taken as parameters:
  the message abstraction (\<^verbatim>\<open>AsBytes\<close>; the key/value pairs that
  \<^verbatim>\<open>MetadataFilter.Walk\<close> hands to its callback, in call order), the package's
  \<^verbatim>\<open>convertMessage\<close>, \<^verbatim>\<open>authConfToOptions\<close>, \<^verbatim>\<open>time.ParseDuration\<close>,
  \<^verbatim>\<open>nats.Connect\<close>, and the broker's answer to a request on a connection.
\<close>

record 'm env =
  AsBytes :: "'m \<Rightarrow> error + string"
  Walk :: "MetadataFilter option \<Rightarrow> 'm \<Rightarrow> (string \<times> string) list"
  convertMessage :: "nats_Msg \<Rightarrow> error + 'm"
  authConfToOptions :: "auth_Config \<Rightarrow> FS \<Rightarrow> nats_Option list"
  ParseDuration :: "string \<Rightarrow> error + Duration"
  Connect :: "string \<Rightarrow> nats_Option list \<Rightarrow> error + nats_Conn"
  broker :: "nats_Conn \<Rightarrow> nats_Msg \<Rightarrow> exchange"

subsection \<open>Contexts and the request\<close>

text \<open>
  A context, as the time left until its deadline (\<open>None\<close>: it has no deadline).
\<close>

record Context =
  remaining :: "Duration option"

text \<open>
  Modelled from the spec: \<^verbatim>\<open>context.WithTimeout\<close>, which is Go's library and not in
  this repository. The child's deadline is
  \<^verbatim>\<open>min(remaining-time-in-incoming-context, configured-timeout)\<close>.
\<close>

definition derived_deadline :: "Context \<Rightarrow> Duration \<Rightarrow> Duration" where
  "derived_deadline ctx d = (case remaining ctx of None \<Rightarrow> d | Some t \<Rightarrow> min t d)"

definition WithTimeout :: "Context \<Rightarrow> Duration \<Rightarrow> Context" where
  "WithTimeout ctx d = \<lparr>remaining = Some (derived_deadline ctx d)\<rparr>"

text \<open>
  Modelled from the spec: \<^verbatim>\<open>(*nats.Conn).RequestMsgWithContext\<close>, which is the NATS
  client's and not in this repository. The call blocks until a reply arrives, the
  deadline elapses (the timeout error), or the connection fails. What arrives
  before the deadline is returned; a context that is already past its deadline, and
  one whose deadline comes first, give the timeout error; with no deadline and no
  reply the call never returns.
\<close>

definition RequestMsgWithContext ::
  "'m env \<Rightarrow> nats_Conn \<Rightarrow> Context \<Rightarrow> nats_Msg \<Rightarrow> (error + nats_Msg) option" where
  "RequestMsgWithContext e nc ctx m =
     (case broker e nc m of
        Reply d resp \<Rightarrow>
          (case remaining ctx of
             None \<Rightarrow> Some (Inr resp)
           | Some t \<Rightarrow> if int d < t then Some (Inr resp) else Some (Inl DeadlineExceeded))
      | ConnectionFails d err \<Rightarrow>
          (case remaining ctx of
             None \<Rightarrow> Some (Inl err)
           | Some t \<Rightarrow> if int d < t then Some (Inl err) else Some (Inl DeadlineExceeded))
      | NoReply \<Rightarrow>
          (case remaining ctx of
             None \<Rightarrow> None
           | Some t \<Rightarrow> Some (Inl DeadlineExceeded)))"

subsection \<open>Close\<close>

text \<open>
  \<^verbatim>\<open>
  func (r *requestReplyProcessor) Close(ctx context.Context) error {
      r.connMut.Lock()
      defer r.connMut.Unlock()
      if r.natsConn != nil {
          r.natsConn.Close()
          r.natsConn = nil
      }
      return nil
  }
  \<close>
  A run of \<open>Close\<close>: the processor it leaves, the handles it called \<^verbatim>\<open>Close()\<close> on,
  and the error it returned (\<open>None\<close> is Go's nil).
\<close>

record 'm CloseRun =
  closed_proc :: "'m requestReplyProcessor"
  closed_conns :: "nats_Conn list"
  closed_err :: "error option"

definition Close :: "'m requestReplyProcessor \<Rightarrow> 'm CloseRun option" where
  "Close r =
     (case Lock (connMut r) of
        None \<Rightarrow> None
      | Some mu \<Rightarrow>
          (case natsConn r of
             Some nc \<Rightarrow>
               Some \<lparr>closed_proc = r\<lparr>natsConn := None, connMut := Unlock mu\<rparr>,
                     closed_conns = [nc], closed_err = None\<rparr>
           | None \<Rightarrow>
               Some \<lparr>closed_proc = r\<lparr>connMut := Unlock mu\<rparr>,
                     closed_conns = [], closed_err = None\<rparr>))"

subsection \<open>Process\<close>

text \<open>
  The loop over the explicit headers (lines 189 to 195):
  \<^verbatim>\<open>
  for k, v := range r.headers {
      headerStr, err := v.TryString(msg)
      if err != nil {
          return nil, fmt.Errorf("header %v interpolation error: %w", k, err)
      }
      nMsg.Header.Add(k, headerStr)
  }
  \<close>
\<close>

fun range_headers ::
  "(string \<times> 'm InterpolatedString) list \<Rightarrow> 'm \<Rightarrow> nats_Header \<Rightarrow> error + nats_Header" where
  "range_headers [] msg h = Inr h"
| "range_headers ((k, v) # rest) msg h =
     (case TryString v msg of
        Inl err \<Rightarrow> Inl (HeaderInterpolation k err)
      | Inr headerStr \<Rightarrow> range_headers rest msg (Header_Add h k headerStr))"

text \<open>
  The callback of \<^verbatim>\<open>r.metaFilter.Walk\<close> (lines 196 to 199) adds every pair it is
  given and returns nil, so the walk visits all its pairs.
\<close>

definition walk_headers :: "(string \<times> string) list \<Rightarrow> nats_Header \<Rightarrow> nats_Header" where
  "walk_headers kvs h = foldl (\<lambda>h' (key, v). Header_Add h' key v) h kvs"

text \<open>Lines 188 to 200: headers are resolved only on a connection that supports them.\<close>

definition attach_headers ::
  "'m env \<Rightarrow> 'm requestReplyProcessor \<Rightarrow> nats_Conn \<Rightarrow> 'm \<Rightarrow> nats_Msg \<Rightarrow> error + nats_Msg" where
  "attach_headers e r nc msg nMsg =
     (if HeadersSupported nc then
        (case range_headers (headers r) msg (Header nMsg) of
           Inl err \<Rightarrow> Inl err
         | Inr h \<Rightarrow> Inr (nMsg\<lparr>Header := walk_headers (Walk e (metaFilter r) msg) h\<rparr>))
      else Inr nMsg)"

text \<open>
  What \<open>Process\<close> gives back to its caller: the batch and the error (\<open>Return [] (Some err)\<close>
  is \<^verbatim>\<open>return nil, err\<close>), or a panic.
\<close>

datatype 'm returned = Return "'m list" "error option" | Panic

text \<open>
  A run of \<open>Process\<close>: the processor it leaves, the messages it handed to
  \<^verbatim>\<open>RequestMsgWithContext\<close>, and what it gave back.
\<close>

record 'm ProcessRun =
  proc :: "'m requestReplyProcessor"
  requests :: "nats_Msg list"
  returned :: "'m returned"

text \<open>
  Lines 177 to 212, which run under the read lock. \<^verbatim>\<open>r.natsConn.HeadersSupported()\<close>
  reads through the handle, so a nil handle panics there.
\<close>

definition Process_locked ::
  "'m env \<Rightarrow> 'm requestReplyProcessor \<Rightarrow> Context \<Rightarrow> 'm \<Rightarrow> (nats_Msg list \<times> 'm returned) option" where
  "Process_locked e r ctx msg =
     (case TryString (subject r) msg of
        Inl err \<Rightarrow> Some ([], Return [] (Some err))
      | Inr subj \<Rightarrow>
          (case AsBytes e msg of
             Inl err \<Rightarrow> Some ([], Return [] (Some err))
           | Inr bytes \<Rightarrow>
               (case natsConn r of
                  None \<Rightarrow> Some ([], Panic)
                | Some nc \<Rightarrow>
                    (case attach_headers e r nc msg ((NewMsg subj)\<lparr>Data := bytes\<rparr>) of
                       Inl err \<Rightarrow> Some ([], Return [] (Some err))
                     | Inr nMsg \<Rightarrow>
                         (case RequestMsgWithContext e nc (WithTimeout ctx (timeout r)) nMsg of
                            None \<Rightarrow> None
                          | Some (Inl err) \<Rightarrow> Some ([nMsg], Return [] (Some err))
                          | Some (Inr resp) \<Rightarrow>
                              (case convertMessage e resp of
                                 Inl err \<Rightarrow> Some ([nMsg], Return [] (Some err))
                               | Inr out \<Rightarrow> Some ([nMsg], Return [out] None)))))))"

text \<open>
  \<^verbatim>\<open>r.connMut.RLock(); defer r.connMut.RUnlock()\<close> around it; the deferred unlock also
  runs when the body panics.
\<close>

definition Process ::
  "'m env \<Rightarrow> 'm requestReplyProcessor \<Rightarrow> Context \<Rightarrow> 'm \<Rightarrow> 'm ProcessRun option" where
  "Process e r ctx msg =
     (case RLock (connMut r) of
        None \<Rightarrow> None
      | Some mu \<Rightarrow>
          (case Process_locked e (r\<lparr>connMut := mu\<rparr>) ctx msg of
             None \<Rightarrow> None
           | Some (reqs, ret) \<Rightarrow>
               Some \<lparr>proc = r\<lparr>connMut := RUnlock mu\<rparr>, requests = reqs, returned = ret\<rparr>))"

subsection \<open>connect and the constructor\<close>

text \<open>
  Lines 149 to 171. \<^verbatim>\<open>p.natsConn, err = nats.Connect(p.urls, opts...)\<close> stores what
  \<^verbatim>\<open>Connect\<close> returns, which is nil beside an error.
\<close>

definition connect_opts :: "'m env \<Rightarrow> 'm requestReplyProcessor \<Rightarrow> nats_Option list" where
  "connect_opts e p =
     (case tlsConf p of None \<Rightarrow> [] | Some c \<Rightarrow> [Secure c])
     @ (if inboxPrefix p \<noteq> [] then [CustomInboxPrefix (inboxPrefix p)] else [])
     @ [Name (label p)]
     @ authConfToOptions e (authConf p) (fs p)
     @ [ErrorHandler (log p)]
     @ [Timeout (timeout p)]"

definition connect ::
  "'m env \<Rightarrow> 'm requestReplyProcessor \<Rightarrow> ('m requestReplyProcessor \<times> error option) option" where
  "connect e p =
     (case Lock (connMut p) of
        None \<Rightarrow> None
      | Some mu \<Rightarrow>
          (case Connect e (urls p) (connect_opts e p) of
             Inl err \<Rightarrow> Some (p\<lparr>natsConn := None, connMut := Unlock mu\<rparr>, Some err)
           | Inr nc \<Rightarrow> Some (p\<lparr>natsConn := Some nc, connMut := Unlock mu\<rparr>, None)))"

text \<open>
  The parsed configuration, as what each accessor returns, and the resources of the
  manager. \<open>FieldMetadataFilter_metadata\<close> is the \<^verbatim>\<open>metadata\<close> field that lines 62 to 64
  declare (which metadata values become headers); the constructor calls every accessor
  but this one.
\<close>

record 'm ParsedConfig =
  FieldStringList_urls :: "error + string list"
  FieldInterpolatedString_subject :: "error + 'm InterpolatedString"
  Contains_inbox_prefix :: bool
  FieldString_inbox_prefix :: "error + string"
  FieldInterpolatedStringMap_headers :: "error + (string \<times> 'm InterpolatedString) list"
  FieldMetadataFilter_metadata :: "error + MetadataFilter"
  FieldString_timeout :: "error + string"
  FieldTLSToggled_tls :: "error + (tls_Config option \<times> bool)"
  AuthFromParsedConfig_auth :: "error + auth_Config"

record Resources =
  mgr_Label :: string
  mgr_Logger :: Logger
  mgr_FS :: FS

fun Join :: "string list \<Rightarrow> string \<Rightarrow> string" where
  "Join [] sep = []"
| "Join [x] sep = x"
| "Join (x # y # ys) sep = x @ sep @ Join (y # ys) sep"

text \<open>
  Lines 98 to 147. Every accessor that fails ends the construction with its error; the
  fields not assigned keep Go's zero values (no metadata filter is read from the
  configuration, so \<open>metaFilter\<close> stays nil); the last step is \<open>connect\<close>.
\<close>

definition newRequestReplyProcessor ::
  "'m env \<Rightarrow> 'm ParsedConfig \<Rightarrow> Resources \<Rightarrow> (error + 'm requestReplyProcessor) option" where
  "newRequestReplyProcessor e conf mgr =
     (case FieldStringList_urls conf of
        Inl err \<Rightarrow> Some (Inl err)
      | Inr urlList \<Rightarrow>
     (case FieldInterpolatedString_subject conf of
        Inl err \<Rightarrow> Some (Inl err)
      | Inr subj \<Rightarrow>
     (case (if Contains_inbox_prefix conf then FieldString_inbox_prefix conf else Inr []) of
        Inl err \<Rightarrow> Some (Inl err)
      | Inr prefix \<Rightarrow>
     (case FieldInterpolatedStringMap_headers conf of
        Inl err \<Rightarrow> Some (Inl err)
      | Inr hdrs \<Rightarrow>
     (case FieldString_timeout conf of
        Inl err \<Rightarrow> Some (Inl err)
      | Inr timeoutStr \<Rightarrow>
     (case ParseDuration e timeoutStr of
        Inl err \<Rightarrow> Some (Inl err)
      | Inr d \<Rightarrow>
     (case FieldTLSToggled_tls conf of
        Inl err \<Rightarrow> Some (Inl err)
      | Inr (tlsC, tlsEnabled) \<Rightarrow>
     (case AuthFromParsedConfig_auth conf of
        Inl err \<Rightarrow> Some (Inl err)
      | Inr auth \<Rightarrow>
     (case connect e
             \<lparr>label = mgr_Label mgr, urls = Join urlList '','', headers = hdrs,
              metaFilter = None, subject = subj, inboxPrefix = prefix, timeout = d,
              tlsConf = (if tlsEnabled then tlsC else None), authConf = auth,
              log = mgr_Logger mgr, fs = mgr_FS mgr, natsConn = None,
              connMut = \<lparr>readers = 0, writer = False\<rparr>\<rparr> of
        None \<Rightarrow> None
      | Some (p, Some err) \<Rightarrow> Some (Inl err)
      | Some (p, None) \<Rightarrow> Some (Inr p))))))))))"

subsection \<open>Notions the claims speak of\<close>

text \<open>
  The deadline elapses before anything comes back from the broker: what comes back comes
  later than \<open>t\<close> nanoseconds after the request, or never.
\<close>

definition deadline_first :: "Duration \<Rightarrow> exchange \<Rightarrow> bool" where
  "deadline_first t x =
     (case x of
        Reply d resp \<Rightarrow> t < int d
      | ConnectionFails d err \<Rightarrow> t < int d
      | NoReply \<Rightarrow> True)"

text \<open>
  The explicit header \<open>kt\<close> (a name and its template) evaluates against the message to
  the pair \<open>kv\<close> (the same name and the value); and the values a list of pairs holds
  under a key, in the order of the list.
\<close>

definition evaluates_to ::
  "'m \<Rightarrow> (string \<times> 'm InterpolatedString) \<Rightarrow> (string \<times> string) \<Rightarrow> bool" where
  "evaluates_to msg kt kv = (fst kv = fst kt \<and> TryString (snd kt) msg = Inr (snd kv))"

definition under :: "string \<Rightarrow> (string \<times> string) list \<Rightarrow> string list" where
  "under key kvs = map snd (filter (\<lambda>kv. fst kv = key) kvs)"

text \<open>
  Two refusals of the NATS client, which is not in this repository: a request with an
  empty subject fails at once with \<^verbatim>\<open>nats: invalid subject\<close>, before anything is
  published; and \<^verbatim>\<open>nats.Connect\<close> with a negative \<^verbatim>\<open>Timeout\<close> option fails with
  \<^verbatim>\<open>nats: timeout invalid\<close>. They are stated of the collaborators where a property
  rests on them.
\<close>

definition refuses_empty_subject :: "'m env \<Rightarrow> bool" where
  "refuses_empty_subject e =
     (\<forall>nc m. Subject m = [] \<longrightarrow>
        broker e nc m = ConnectionFails 0 (Failure ''nats: invalid subject''))"

definition refuses_negative_timeout :: "'m env \<Rightarrow> bool" where
  "refuses_negative_timeout e =
     (\<forall>u opts d. Timeout d \<in> set opts \<and> d < 0 \<longrightarrow>
        Connect e u opts = Inl (Failure ''nats: timeout invalid''))"

subsection \<open>Example inputs\<close>

text \<open>
  A message here is its body and its metadata. The subject is \<^verbatim>\<open>orders.\<close> followed by
  the metadata value \<^verbatim>\<open>id\<close>; the responder echoes the payload and the headers after
  1000 ns; the client refuses an empty subject and a negative connection timeout; a
  walk with a nil filter hands over nothing.
\<close>

type_synonym message = "string \<times> (string \<times> string) list"

definition ex_conn :: nats_Conn where
  "ex_conn = \<lparr>dialled = ''nats://127.0.0.1:4222'', options = [], info_Headers = True\<rparr>"

definition ex_meta :: "string \<Rightarrow> message InterpolatedString" where
  "ex_meta key m =
     (case map_of (snd m) key of
        None \<Rightarrow> Inl (Failure (''metadata value '' @ key @ '' not found''))
      | Some v \<Rightarrow> Inr v)"

definition ex_subject :: "message InterpolatedString" where
  "ex_subject m =
     (case ex_meta ''id'' m of Inl err \<Rightarrow> Inl err | Inr v \<Rightarrow> Inr (''orders.'' @ v))"

definition ex_const :: "string \<Rightarrow> message InterpolatedString" where
  "ex_const s m = Inr s"

definition negative_timeout :: "nats_Option \<Rightarrow> bool" where
  "negative_timeout opt = (case opt of Timeout d \<Rightarrow> d < 0 | _ \<Rightarrow> False)"

definition ex_env :: "message env" where
  "ex_env =
     \<lparr>AsBytes = (\<lambda>m. Inr (fst m)),
      Walk = (\<lambda>f m. case f of None \<Rightarrow> [] | Some sel \<Rightarrow> filter (\<lambda>kv. sel (fst kv)) (snd m)),
      convertMessage = (\<lambda>resp. Inr (Data resp, [(''nats_subject'', Subject resp)])),
      authConfToOptions = (\<lambda>a f. []),
      ParseDuration = (\<lambda>s. if s = ''3s'' then Inr 3000000000
                           else if s = ''0s'' then Inr 0
                           else if s = ''-1s'' then Inr (- 1000000000)
                           else Inl (Failure ''time: invalid duration'')),
      Connect = (\<lambda>u opts. if list_ex negative_timeout opts
                           then Inl (Failure ''nats: timeout invalid'')
                           else Inr \<lparr>dialled = u, options = opts, info_Headers = True\<rparr>),
      broker = (\<lambda>nc m. if Subject m = []
                         then ConnectionFails 0 (Failure ''nats: invalid subject'')
                         else Reply 1000 \<lparr>Subject = ''_INBOX.reply'', Data = Data m,
                                          Header = Header m\<rparr>)\<rparr>"

definition ex_proc :: "message requestReplyProcessor" where
  "ex_proc =
     \<lparr>label = ''rr'', urls = ''nats://127.0.0.1:4222'',
      headers = [(''Content-Type'', ex_const ''application/json''),
                 (''trace_id'', ex_const ''templated'')],
      metaFilter = Some (\<lambda>k. k = ''trace_id''),
      subject = ex_subject, inboxPrefix = [], timeout = 3000000000,
      tlsConf = None, authConf = 0, log = 0, fs = 0,
      natsConn = Some ex_conn, connMut = \<lparr>readers = 0, writer = False\<rparr>\<rparr>"

definition ex_msg :: message where
  "ex_msg = (''hello'', [(''id'', ''42''), (''trace_id'', ''abc123'')])"

definition ex_ctx :: Context where
  "ex_ctx = \<lparr>remaining = None\<rparr>"

definition ex_request :: nats_Msg where
  "ex_request =
     \<lparr>Subject = ''orders.42'', Data = ''hello'',
      Header = [''Content-Type'' \<mapsto> [''application/json''],
                ''trace_id'' \<mapsto> [''templated'', ''abc123'']]\<rparr>"

definition ex_reply :: nats_Msg where
  "ex_reply = ex_request\<lparr>Subject := ''_INBOX.reply''\<rparr>"

text \<open>A broker that never answers, a server without header support, a subject
  template that is empty, a header that needs the metadata value \<^verbatim>\<open>span\<close>, and
  messages that lack metadata.\<close>

definition ex_env_silent :: "message env" where
  "ex_env_silent = ex_env\<lparr>broker := (\<lambda>nc m. NoReply)\<rparr>"



definition ex_proc_blank :: "message requestReplyProcessor" where
  "ex_proc_blank = ex_proc\<lparr>headers := [], metaFilter := None, subject := ex_const []\<rparr>"

definition ex_proc_span :: "message requestReplyProcessor" where
  "ex_proc_span =
     ex_proc\<lparr>headers := [(''Content-Type'', ex_const ''application/json''),
                          (''X-Span'', ex_meta ''span'')]\<rparr>"

definition ex_msg_bare :: message where
  "ex_msg_bare = (''hello'', [])"

definition ex_msg_id :: message where
  "ex_msg_id = (''hello'', [(''id'', ''42'')])"

text \<open>
  A configuration, with the default timeout, with a timeout of zero and with a negative
  one; and one that has a header \<^verbatim>\<open>trace_id\<close> and a metadata filter selecting the key
  \<^verbatim>\<open>trace_id\<close>, with the processor the constructor makes of it.
\<close>

definition ex_filter :: MetadataFilter where
  "ex_filter key = (key = ''trace_id'')"

definition ex_no_filter :: MetadataFilter where
  "ex_no_filter key = False"

definition ex_conf :: "message ParsedConfig" where
  "ex_conf =
     \<lparr>FieldStringList_urls = Inr [''nats://127.0.0.1:4222''],
      FieldInterpolatedString_subject = Inr ex_subject,
      Contains_inbox_prefix = False,
      FieldString_inbox_prefix = Inl (Failure ''field inbox_prefix was not found''),
      FieldInterpolatedStringMap_headers = Inr [],
      FieldMetadataFilter_metadata = Inr ex_no_filter,
      FieldString_timeout = Inr ''3s'',
      FieldTLSToggled_tls = Inr (None, False),
      AuthFromParsedConfig_auth = Inr 0\<rparr>"

definition ex_conf_zero :: "message ParsedConfig" where
  "ex_conf_zero = ex_conf\<lparr>FieldString_timeout := Inr ''0s''\<rparr>"

definition ex_conf_negative :: "message ParsedConfig" where
  "ex_conf_negative = ex_conf\<lparr>FieldString_timeout := Inr ''-1s''\<rparr>"

definition ex_conf_trace :: "message ParsedConfig" where
  "ex_conf_trace =
     ex_conf\<lparr>FieldInterpolatedStringMap_headers := Inr [(''trace_id'', ex_const ''templated'')],
             FieldMetadataFilter_metadata := Inr ex_filter\<rparr>"

definition ex_mgr :: Resources where
  "ex_mgr = \<lparr>mgr_Label = ''rr'', mgr_Logger = 0, mgr_FS = 0\<rparr>"

definition ex_built :: "message requestReplyProcessor" where
  "ex_built =
     \<lparr>label = ''rr'', urls = ''nats://127.0.0.1:4222'',
      headers = [(''trace_id'', ex_const ''templated'')],
      metaFilter = None,
      subject = ex_subject, inboxPrefix = [], timeout = 3000000000,
      tlsConf = None, authConf = 0, log = 0, fs = 0,
      natsConn = Some \<lparr>dialled = ''nats://127.0.0.1:4222'',
                        options = [Name ''rr'', ErrorHandler 0, Timeout 3000000000],
                        info_Headers = True\<rparr>,
      connMut = \<lparr>readers = 0, writer = False\<rparr>\<rparr>"

section \<open>Properties\<close>

subsection \<open>The mutex is released as it was taken\<close>

lemma RUnlock_RLock: "RLock mu = Some mu' \<Longrightarrow> RUnlock mu' = mu"
  by (auto simp: RLock_def RUnlock_def split: if_splits)

lemma RLock_free: "\<not> writer mu \<Longrightarrow> RLock mu = Some (mu\<lparr>readers := Suc (readers mu)\<rparr>)"
  by (simp add: RLock_def)

lemma Unlock_Lock: "Lock mu = Some mu' \<Longrightarrow> Unlock mu' = mu"
  by (auto simp: Lock_def Unlock_def split: if_splits)

lemma Lock_free: "\<not> writer mu \<Longrightarrow> readers mu = 0 \<Longrightarrow> Lock mu = Some (mu\<lparr>writer := True\<rparr>)"
  by (simp add: Lock_def)

subsection \<open>The header loops\<close>

lemma Values_Header_Add:
  "Values (Header_Add h k v) key = (if key = k then Values h k @ [v] else Values h key)"
  by (simp add: Values_def Header_Add_def)

lemma Values_empty: "Values Map.empty key = []"
  by (simp add: Values_def)

lemma walk_headers_Nil: "walk_headers [] h = h"
  by (simp add: walk_headers_def)

lemma walk_headers_Cons: "walk_headers ((k, v) # kvs) h = walk_headers kvs (Header_Add h k v)"
  by (simp add: walk_headers_def)

lemma walk_headers_append: "walk_headers (xs @ ys) h = walk_headers ys (walk_headers xs h)"
  by (simp add: walk_headers_def)

text \<open>Adding never overwrites: the values under a key grow at the end, in call order.\<close>

lemma Values_walk_headers: "Values (walk_headers kvs h) key = Values h key @ under key kvs"
proof (induction kvs arbitrary: h)
  case Nil
  show ?case by (simp add: walk_headers_Nil under_def)
next
  case (Cons kv kvs)
  obtain k v where kv: "kv = (k, v)" by (cases kv)
  have "under key (kv # kvs) = (if k = key then [v] else []) @ under key kvs"
    by (simp add: kv under_def)
  then show ?case
    by (simp add: kv walk_headers_Cons Cons.IH Values_Header_Add)
qed

lemma under_mem: "(key, v) \<in> set kvs \<Longrightarrow> v \<in> set (under key kvs)"
  by (force simp: under_def)

text \<open>When every template evaluates, the loop adds the evaluated pairs in its order.\<close>

lemma range_headers_evaluated:
  "list_all2 (evaluates_to msg) hs tvs \<Longrightarrow> range_headers hs msg h = Inr (walk_headers tvs h)"
proof (induction hs arbitrary: tvs h)
  case Nil
  then show ?case by (simp add: walk_headers_Nil)
next
  case (Cons kt hs)
  from Cons.prems obtain kv tvs' where tvs: "tvs = kv # tvs'"
    and first: "evaluates_to msg kt kv"
    and rest: "list_all2 (evaluates_to msg) hs tvs'"
    by (auto simp: list_all2_Cons1)
  obtain k t where kt: "kt = (k, t)" by (cases kt)
  obtain k' s where kv: "kv = (k', s)" by (cases kv)
  from first kt kv have "k' = k" and "TryString t msg = Inr s"
    by (simp_all add: evaluates_to_def)
  then show ?case
    by (simp add: kt kv tvs walk_headers_Cons Cons.IH [OF rest])
qed

text \<open>When the loop comes through, every template has evaluated, and the pairs were added in order.\<close>

lemma range_headers_Inr:
  "range_headers hs msg h = Inr h' \<Longrightarrow>
     \<exists>tvs. list_all2 (evaluates_to msg) hs tvs \<and> h' = walk_headers tvs h"
proof (induction hs arbitrary: h)
  case Nil
  then show ?case by (simp add: walk_headers_Nil)
next
  case (Cons kt hs)
  obtain k t where kt: "kt = (k, t)" by (cases kt)
  from Cons.prems kt obtain s where s: "TryString t msg = Inr s"
    and rest: "range_headers hs msg (Header_Add h k s) = Inr h'"
    by (auto split: sum.splits)
  from Cons.IH [OF rest] obtain tvs where tvs: "list_all2 (evaluates_to msg) hs tvs"
    and h': "h' = walk_headers tvs (Header_Add h k s)"
    by blast
  have "list_all2 (evaluates_to msg) (kt # hs) ((k, s) # tvs)"
    using tvs s by (simp add: kt evaluates_to_def)
  moreover have "h' = walk_headers ((k, s) # tvs) h"
    using h' by (simp add: walk_headers_Cons)
  ultimately show ?case by blast
qed

text \<open>The loop stops at the first template that fails, with that header's name.\<close>

lemma range_headers_first_failure:
  assumes "\<forall>kt \<in> set pre. \<exists>s. TryString (snd kt) msg = Inr s"
    and "TryString v msg = Inl err"
  shows "range_headers (pre @ (k, v) # post) msg h = Inl (HeaderInterpolation k err)"
  using assms(1)
proof (induction pre arbitrary: h)
  case Nil
  show ?case by (simp add: assms(2))
next
  case (Cons kt pre)
  obtain k' t where kt: "kt = (k', t)" by (cases kt)
  from Cons.prems kt obtain s where s: "TryString t msg = Inr s" by auto
  from Cons.prems have "\<forall>kt \<in> set pre. \<exists>s. TryString (snd kt) msg = Inr s" by simp
  then show ?case by (simp add: kt s Cons.IH)
qed

lemma attach_headers_keeps:
  "attach_headers e r nc msg m = Inr m' \<Longrightarrow> Subject m' = Subject m \<and> Data m' = Data m"
  by (auto simp: attach_headers_def split: if_splits sum.splits)

lemma attach_headers_connMut:
  "attach_headers e (r\<lparr>connMut := mu\<rparr>) nc msg m = attach_headers e r nc msg m"
  by (simp add: attach_headers_def split: sum.splits)

subsection \<open>Process under a free mutex\<close>

text \<open>Under the context that \<open>WithTimeout\<close> makes, the request always returns.\<close>

lemma WithTimeout_returns: "RequestMsgWithContext e nc (WithTimeout ctx d) m \<noteq> None"
  by (simp add: RequestMsgWithContext_def WithTimeout_def split: exchange.splits)

lemma Process_locked_connMut:
  "Process_locked e (r\<lparr>connMut := mu\<rparr>) ctx msg = Process_locked e r ctx msg"
  by (simp add: Process_locked_def attach_headers_connMut split: sum.splits option.splits)

lemma Process_locked_returns: "Process_locked e r ctx msg \<noteq> None"
  by (simp add: Process_locked_def WithTimeout_returns split: sum.splits option.splits)

lemma Process_free:
  assumes "\<not> writer (connMut r)"
  shows "Process e r ctx msg =
    (case Process_locked e r ctx msg of
       None \<Rightarrow> None
     | Some (reqs, ret) \<Rightarrow> Some \<lparr>proc = r, requests = reqs, returned = ret\<rparr>)"
proof -
  have "RLock (connMut r) = Some ((connMut r)\<lparr>readers := Suc (readers (connMut r))\<rparr>)"
    using assms by (rule RLock_free)
  moreover have "r\<lparr>connMut := RUnlock ((connMut r)\<lparr>readers := Suc (readers (connMut r))\<rparr>)\<rparr> = r"
    by (simp add: RUnlock_def)
  ultimately show ?thesis
    by (simp add: Process_def Process_locked_connMut split: option.splits)
qed

text \<open>A request that was issued carries the subject the template evaluated to.\<close>

lemma Process_locked_subject:
  assumes "Process_locked e r ctx msg = Some (reqs, ret)" and "nMsg \<in> set reqs"
  shows "TryString (subject r) msg = Inr (Subject nMsg)"
proof -
  from assms obtain subj bytes nc where subj: "TryString (subject r) msg = Inr subj"
    and att: "attach_headers e r nc msg ((NewMsg subj)\<lparr>Data := bytes\<rparr>) = Inr nMsg"
    by (auto simp: Process_locked_def split: sum.splits option.splits)
  from att have "Subject nMsg = Subject ((NewMsg subj)\<lparr>Data := bytes\<rparr>)"
    by (simp add: attach_headers_keeps)
  then have "Subject nMsg = subj" by (simp add: NewMsg_def)
  with subj show ?thesis by simp
qed

text \<open>What a request that was issued went through.\<close>

lemma Process_locked_attach:
  assumes "Process_locked e r ctx msg = Some (reqs, ret)" and "nMsg \<in> set reqs"
    and "natsConn r = Some nc"
  shows "\<exists>subj bytes. TryString (subject r) msg = Inr subj \<and> AsBytes e msg = Inr bytes
           \<and> attach_headers e r nc msg ((NewMsg subj)\<lparr>Data := bytes\<rparr>) = Inr nMsg"
  using assms
  by (auto simp: Process_locked_def split: sum.splits option.splits)

lemma Process_locked_error:
  assumes "Process_locked e r ctx msg = Some (reqs, ret)" and "nMsg \<in> set reqs"
    and "natsConn r = Some nc"
    and "RequestMsgWithContext e nc (WithTimeout ctx (timeout r)) nMsg = Some (Inl err)"
  shows "ret = Return [] (Some err)"
  using assms
  by (auto simp: Process_locked_def split: sum.splits option.splits)

lemma Process_request:
  assumes "Process e r ctx msg = Some run"
  shows "Process_locked e r ctx msg = Some (requests run, returned run)"
proof -
  from assms(1) obtain mu where
    "Process_locked e (r\<lparr>connMut := mu\<rparr>) ctx msg = Some (requests run, returned run)"
    by (auto simp: Process_def split: option.splits)
  then show ?thesis by (simp add: Process_locked_connMut)
qed

text \<open>With a nil handle, a message that got as far as the headers panics.\<close>

lemma Process_nil_handle:
  assumes "\<not> writer (connMut r)" and "natsConn r = None"
    and "TryString (subject r) msg = Inr subj" and "AsBytes e msg = Inr bytes"
  shows "Process e r ctx msg = Some \<lparr>proc = r, requests = [], returned = Panic\<rparr>"
  using assms by (simp add: Process_free Process_locked_def)

lemma Close_free:
  assumes "\<not> writer (connMut r)" and "readers (connMut r) = 0"
  shows "Close r = Some \<lparr>closed_proc = r\<lparr>natsConn := None\<rparr>,
                        closed_conns = (case natsConn r of None \<Rightarrow> [] | Some nc \<Rightarrow> [nc]),
                        closed_err = None\<rparr>"
proof -
  have mu: "Lock (connMut r) = Some ((connMut r)\<lparr>writer := True\<rparr>)"
    using assms by (rule Lock_free)
  have restored: "Unlock ((connMut r)\<lparr>writer := True\<rparr>) = connMut r"
    using mu by (rule Unlock_Lock)
  show ?thesis
    by (simp add: Close_def mu restored split: option.splits)
qed

text \<open>
  What the constructor hands out: a processor with a handle, a free mutex, and no
  metadata filter (the field is never assigned).
\<close>

lemma newRequestReplyProcessor_constructed:
  assumes "newRequestReplyProcessor e conf mgr = Some (Inr p)"
  shows "natsConn p \<noteq> None \<and> metaFilter p = None \<and> connMut p = \<lparr>readers = 0, writer = False\<rparr>"
  using assms
  by (auto simp: newRequestReplyProcessor_def connect_def Lock_def Unlock_def
      split: sum.splits option.splits prod.splits if_splits)

subsection \<open>The example inputs, evaluated\<close>

lemma ex_proc_free: "\<not> writer (connMut ex_proc)" "readers (connMut ex_proc) = 0"
  by (simp_all add: ex_proc_def)

lemma ex_proc_conn: "natsConn ex_proc = Some ex_conn"
  by (simp add: ex_proc_def)

lemma ex_conn_headers: "HeadersSupported ex_conn"
  by (simp add: HeadersSupported_def ex_conn_def)

lemma ex_subject_msg: "TryString ex_subject ex_msg = Inr ''orders.42''"
  by (simp add: TryString_def ex_subject_def ex_meta_def ex_msg_def)

lemma ex_subject_msg_id: "TryString ex_subject ex_msg_id = Inr ''orders.42''"
  by (simp add: TryString_def ex_subject_def ex_meta_def ex_msg_id_def)

lemma ex_subject_msg_bare:
  "TryString ex_subject ex_msg_bare = Inl (Failure ''metadata value id not found'')"
  by (simp add: TryString_def ex_subject_def ex_meta_def ex_msg_bare_def)

lemma ex_attach:
  assumes "AsBytes e = AsBytes ex_env" and "Walk e = Walk ex_env"
  shows "attach_headers e ex_proc ex_conn ex_msg ((NewMsg ''orders.42'')\<lparr>Data := ''hello''\<rparr>)
           = Inr ex_request"
  by (simp add: assms attach_headers_def HeadersSupported_def ex_conn_def ex_proc_def ex_const_def
      TryString_def NewMsg_def Header_Add_def Values_def walk_headers_def ex_env_def ex_msg_def
      ex_request_def)

lemma ex_request_reply:
  assumes "broker e = broker ex_env"
  shows "RequestMsgWithContext e ex_conn (WithTimeout ex_ctx (timeout ex_proc)) ex_request
           = Some (Inr ex_reply)"
  by (simp add: assms RequestMsgWithContext_def WithTimeout_def derived_deadline_def ex_env_def
      ex_ctx_def ex_proc_def ex_reply_def ex_request_def)

lemma ex_run:
  "Process ex_env ex_proc ex_ctx ex_msg =
     Some \<lparr>proc = ex_proc, requests = [ex_request],
           returned = Return [(''hello'', [(''nats_subject'', ''_INBOX.reply'')])] None\<rparr>"
  by (simp add: ex_env_def ex_proc_def ex_conn_def ex_subject_def ex_meta_def
      ex_const_def ex_msg_def ex_ctx_def ex_request_def
      Process_def Process_locked_def attach_headers_def walk_headers_def
      RequestMsgWithContext_def WithTimeout_def derived_deadline_def RLock_def RUnlock_def
      TryString_def HeadersSupported_def NewMsg_def Header_Add_def Values_def)

lemma ex_run_silent:
  "Process ex_env_silent ex_proc ex_ctx ex_msg =
     Some \<lparr>proc = ex_proc, requests = [ex_request], returned = Return [] (Some DeadlineExceeded)\<rparr>"
  by (simp add: ex_env_silent_def ex_env_def ex_proc_def ex_conn_def ex_subject_def ex_meta_def
      ex_const_def ex_msg_def ex_ctx_def ex_request_def
      Process_def Process_locked_def attach_headers_def walk_headers_def
      RequestMsgWithContext_def WithTimeout_def derived_deadline_def RLock_def RUnlock_def
      TryString_def HeadersSupported_def NewMsg_def Header_Add_def Values_def)

section \<open>The claims\<close>

subsection \<open>A reply becomes the one output record\<close>

text \<open>
  C1: when the subject template evaluates, the message serialises, the headers resolve
  and the request returns a reply in time, \<open>Process\<close> returns exactly one record and no
  error: the record \<^verbatim>\<open>convertMessage\<close> made of the reply (\<open>out\<close>), which takes the place
  of the input record. And whenever \<open>Process\<close> returns no error, its batch holds exactly
  one record, never none and never more.
\<close>

theorem Process_reply_one_record:
  "(\<not> writer (connMut r) \<and> natsConn r = Some nc
      \<and> TryString (subject r) msg = Inr subj \<and> AsBytes e msg = Inr bytes
      \<and> attach_headers e r nc msg ((NewMsg subj)\<lparr>Data := bytes\<rparr>) = Inr nMsg
      \<and> RequestMsgWithContext e nc (WithTimeout ctx (timeout r)) nMsg = Some (Inr resp)
      \<and> convertMessage e resp = Inr out
    \<longrightarrow> Process e r ctx msg = Some \<lparr>proc = r, requests = [nMsg], returned = Return [out] None\<rparr>)
   \<and> (\<forall>run batch. Process e r ctx msg = Some run \<and> returned run = Return batch None
         \<longrightarrow> length batch = 1)"
proof (intro conjI allI impI)
  assume "\<not> writer (connMut r) \<and> natsConn r = Some nc
      \<and> TryString (subject r) msg = Inr subj \<and> AsBytes e msg = Inr bytes
      \<and> attach_headers e r nc msg ((NewMsg subj)\<lparr>Data := bytes\<rparr>) = Inr nMsg
      \<and> RequestMsgWithContext e nc (WithTimeout ctx (timeout r)) nMsg = Some (Inr resp)
      \<and> convertMessage e resp = Inr out"
  then show "Process e r ctx msg = Some \<lparr>proc = r, requests = [nMsg], returned = Return [out] None\<rparr>"
    by (simp add: Process_free Process_locked_def)
next
  fix run batch
  assume "Process e r ctx msg = Some run \<and> returned run = Return batch None"
  then show "length batch = 1"
    by (auto simp: Process_def Process_locked_def split: option.splits sum.splits)
qed

theorem Process_reply_one_record_witness:
  "\<not> writer (connMut ex_proc) \<and> natsConn ex_proc = Some ex_conn
   \<and> TryString (subject ex_proc) ex_msg = Inr ''orders.42'' \<and> AsBytes ex_env ex_msg = Inr ''hello''
   \<and> attach_headers ex_env ex_proc ex_conn ex_msg ((NewMsg ''orders.42'')\<lparr>Data := ''hello''\<rparr>)
        = Inr ex_request
   \<and> RequestMsgWithContext ex_env ex_conn (WithTimeout ex_ctx (timeout ex_proc)) ex_request
        = Some (Inr ex_reply)
   \<and> convertMessage ex_env ex_reply = Inr (''hello'', [(''nats_subject'', ''_INBOX.reply'')])
   \<and> Process ex_env ex_proc ex_ctx ex_msg =
       Some \<lparr>proc = ex_proc, requests = [ex_request],
             returned = Return [(''hello'', [(''nats_subject'', ''_INBOX.reply'')])] None\<rparr>"
proof -
  have h2: "TryString (subject ex_proc) ex_msg = Inr ''orders.42''"
    using ex_subject_msg by (simp add: ex_proc_def)
  have h3: "AsBytes ex_env ex_msg = Inr ''hello''"
    by (simp add: ex_env_def ex_msg_def)
  have h4: "attach_headers ex_env ex_proc ex_conn ex_msg ((NewMsg ''orders.42'')\<lparr>Data := ''hello''\<rparr>)
              = Inr ex_request"
    by (rule ex_attach) simp_all
  have h5: "RequestMsgWithContext ex_env ex_conn (WithTimeout ex_ctx (timeout ex_proc)) ex_request
              = Some (Inr ex_reply)"
    by (rule ex_request_reply) simp
  have h6: "convertMessage ex_env ex_reply = Inr (''hello'', [(''nats_subject'', ''_INBOX.reply'')])"
    by (simp add: ex_env_def ex_reply_def ex_request_def)
  from Process_reply_one_record [of ex_proc ex_conn ex_msg "''orders.42''" ex_env "''hello''"
      ex_request ex_ctx ex_reply "(''hello'', [(''nats_subject'', ''_INBOX.reply'')])"]
    ex_proc_free(1) ex_proc_conn h2 h3 h4 h5 h6
  show ?thesis by simp
qed

subsection \<open>The deadline\<close>

text \<open>
  C2: when the deadline derived from the incoming context and the configured timeout
  elapses before anything comes back for the request that \<open>Process\<close> issued, \<open>Process\<close>
  returns the timeout error and a nil batch; and it does return, whenever no writer
  holds the mutex.
\<close>

theorem Process_timeout:
  "(\<forall>run nMsg nc. Process e r ctx msg = Some run \<and> nMsg \<in> set (requests run)
        \<and> natsConn r = Some nc
        \<and> deadline_first (derived_deadline ctx (timeout r)) (broker e nc nMsg)
      \<longrightarrow> returned run = Return [] (Some DeadlineExceeded))
   \<and> (\<not> writer (connMut r) \<longrightarrow> (\<exists>run. Process e r ctx msg = Some run))"
proof (intro conjI allI impI)
  fix run nMsg nc
  assume a: "Process e r ctx msg = Some run \<and> nMsg \<in> set (requests run)
        \<and> natsConn r = Some nc
        \<and> deadline_first (derived_deadline ctx (timeout r)) (broker e nc nMsg)"
  then have locked: "Process_locked e r ctx msg = Some (requests run, returned run)"
    by (simp add: Process_request)
  from a have late: "RequestMsgWithContext e nc (WithTimeout ctx (timeout r)) nMsg = Some (Inl DeadlineExceeded)"
    by (simp add: deadline_first_def RequestMsgWithContext_def WithTimeout_def split: exchange.splits)
  from a have mem: "nMsg \<in> set (requests run)" and nc: "natsConn r = Some nc" by simp_all
  from locked mem nc late show "returned run = Return [] (Some DeadlineExceeded)"
    by (rule Process_locked_error)
next
  assume "\<not> writer (connMut r)"
  then show "\<exists>run. Process e r ctx msg = Some run"
    using Process_locked_returns [of e r ctx msg]
    by (auto simp: Process_free split: option.splits)
qed

theorem Process_timeout_witness:
  "Process ex_env_silent ex_proc ex_ctx ex_msg =
     Some \<lparr>proc = ex_proc, requests = [ex_request], returned = Return [] (Some DeadlineExceeded)\<rparr>
   \<and> ex_request \<in> set [ex_request] \<and> natsConn ex_proc = Some ex_conn
   \<and> deadline_first (derived_deadline ex_ctx (timeout ex_proc)) (broker ex_env_silent ex_conn ex_request)
   \<and> \<not> writer (connMut ex_proc)"
proof -
  have late: "deadline_first (derived_deadline ex_ctx (timeout ex_proc))
                (broker ex_env_silent ex_conn ex_request)"
    by (simp add: deadline_first_def ex_env_silent_def)
  obtain run where run: "Process ex_env_silent ex_proc ex_ctx ex_msg = Some run"
    using Process_timeout [of ex_env_silent ex_proc ex_ctx ex_msg] ex_proc_free(1) by blast
  with ex_run_silent have reqs: "requests run = [ex_request]" by simp
  from Process_timeout [of ex_env_silent ex_proc ex_ctx ex_msg] run reqs ex_proc_conn late
  have "returned run = Return [] (Some DeadlineExceeded)"
    by simp
  with run ex_run_silent ex_proc_conn late ex_proc_free(1) show ?thesis by simp
qed

subsection \<open>Headers\<close>

text \<open>
  What \<open>Process\<close> does with the filter it holds: on a connection that supports headers,
  every outbound message has the header set that adding all the explicit templated
  headers and then all the metadata pairs of the walk makes of the empty set, so under
  every key the templated values come first and the metadata values after them.
\<close>

lemma Process_header_order:
  assumes "Process e r ctx msg = Some run" and "nMsg \<in> set (requests run)"
    and "natsConn r = Some nc" and "HeadersSupported nc"
    and "Walk e (metaFilter r) msg = mvs"
  shows "\<exists>tvs. list_all2 (evaluates_to msg) (headers r) tvs
           \<and> Header nMsg = walk_headers (tvs @ mvs) Map.empty
           \<and> (\<forall>key. Values (Header nMsg) key = under key tvs @ under key mvs)"
proof -
  from assms(1) have locked: "Process_locked e r ctx msg = Some (requests run, returned run)"
    by (rule Process_request)
  from Process_locked_attach [OF locked assms(2) assms(3)]
  obtain subj bytes where att: "attach_headers e r nc msg ((NewMsg subj)\<lparr>Data := bytes\<rparr>) = Inr nMsg"
    by auto
  from att assms(4,5) obtain h where loop: "range_headers (headers r) msg Map.empty = Inr h"
    and hdr: "Header nMsg = walk_headers mvs h"
    by (auto simp: attach_headers_def NewMsg_def split: sum.splits)
  from range_headers_Inr [OF loop] obtain tvs where tvs: "list_all2 (evaluates_to msg) (headers r) tvs"
    and h: "h = walk_headers tvs Map.empty"
    by blast
  from hdr h have whole: "Header nMsg = walk_headers (tvs @ mvs) Map.empty"
    by (simp add: walk_headers_append)
  have vals: "Values (Header nMsg) key = under key tvs @ under key mvs" for key
    by (simp add: whole Values_walk_headers Values_empty under_def)
  from tvs whole vals show ?thesis by blast
qed

text \<open>
  C3: the code at the input of the claim. The configuration has the explicit header
  \<^verbatim>\<open>trace_id\<close> and a metadata filter that selects the key \<^verbatim>\<open>trace_id\<close>; the constructor
  returns a processor whose \<open>metaFilter\<close> is nil, because it never reads the field; the
  record carries the metadata value \<^verbatim>\<open>abc123\<close> under \<^verbatim>\<open>trace_id\<close>, the connection
  supports headers, and the outbound message holds the templated value alone.
\<close>

theorem Process_constructed_drops_metadata:
  "FieldMetadataFilter_metadata ex_conf_trace = Inr ex_filter \<and> ex_filter ''trace_id''
   \<and> newRequestReplyProcessor ex_env ex_conf_trace ex_mgr = Some (Inr ex_built)
   \<and> metaFilter ex_built = None
   \<and> map_of (snd ex_msg) ''trace_id'' = Some ''abc123''
   \<and> Process ex_env ex_built ex_ctx ex_msg =
       Some \<lparr>proc = ex_built,
             requests = [\<lparr>Subject = ''orders.42'', Data = ''hello'',
                          Header = [''trace_id'' \<mapsto> [''templated'']]\<rparr>],
             returned = Return [(''hello'', [(''nats_subject'', ''_INBOX.reply'')])] None\<rparr>"
proof -
  have conf: "FieldMetadataFilter_metadata ex_conf_trace = Inr ex_filter" "ex_filter ''trace_id''"
    by (simp_all add: ex_conf_trace_def ex_filter_def)
  have built: "newRequestReplyProcessor ex_env ex_conf_trace ex_mgr = Some (Inr ex_built)"
    by (simp add: newRequestReplyProcessor_def connect_def connect_opts_def Lock_def Unlock_def
        negative_timeout_def ex_env_def ex_conf_trace_def ex_conf_def ex_mgr_def ex_built_def)
  have nil: "metaFilter ex_built = None"
    by (simp add: ex_built_def)
  have meta: "map_of (snd ex_msg) ''trace_id'' = Some ''abc123''"
    by (simp add: ex_msg_def)
  have run: "Process ex_env ex_built ex_ctx ex_msg =
       Some \<lparr>proc = ex_built,
             requests = [\<lparr>Subject = ''orders.42'', Data = ''hello'',
                          Header = [''trace_id'' \<mapsto> [''templated'']]\<rparr>],
             returned = Return [(''hello'', [(''nats_subject'', ''_INBOX.reply'')])] None\<rparr>"
    by (simp add: ex_env_def ex_built_def ex_subject_def ex_meta_def
      ex_const_def ex_msg_def ex_ctx_def
      Process_def Process_locked_def attach_headers_def walk_headers_def
      RequestMsgWithContext_def WithTimeout_def derived_deadline_def RLock_def RUnlock_def
      TryString_def HeadersSupported_def NewMsg_def Header_Add_def Values_def)
  from conf built nil meta run show ?thesis by simp
qed



subsection \<open>Process after Close\<close>

text \<open>
  C5: the code at the input of the claim. \<open>Close\<close> clears the handle of the example
  processor; \<open>Process\<close> on the processor it leaves, with a message whose subject
  evaluates, does not return an error: it panics at \<^verbatim>\<open>r.natsConn.HeadersSupported()\<close>.
\<close>

theorem Process_after_Close_panics:
  "Close ex_proc = Some \<lparr>closed_proc = ex_proc\<lparr>natsConn := None\<rparr>,
                         closed_conns = [ex_conn], closed_err = None\<rparr>
   \<and> Process ex_env (ex_proc\<lparr>natsConn := None\<rparr>) ex_ctx ex_msg =
       Some \<lparr>proc = ex_proc\<lparr>natsConn := None\<rparr>, requests = [], returned = Panic\<rparr>"
proof -
  have "Close ex_proc = Some \<lparr>closed_proc = ex_proc\<lparr>natsConn := None\<rparr>,
                         closed_conns = [ex_conn], closed_err = None\<rparr>"
    using Close_free [OF ex_proc_free] by (simp add: ex_proc_conn)
  moreover have "Process ex_env (ex_proc\<lparr>natsConn := None\<rparr>) ex_ctx ex_msg =
       Some \<lparr>proc = ex_proc\<lparr>natsConn := None\<rparr>, requests = [], returned = Panic\<rparr>"
  proof (rule Process_nil_handle)
    show "\<not> writer (connMut (ex_proc\<lparr>natsConn := None\<rparr>))"
      using ex_proc_free(1) by simp
    show "natsConn (ex_proc\<lparr>natsConn := None\<rparr>) = None"
      by simp
    show "TryString (subject (ex_proc\<lparr>natsConn := None\<rparr>)) ex_msg = Inr ''orders.42''"
      using ex_subject_msg by (simp add: ex_proc_def)
    show "AsBytes ex_env ex_msg = Inr ''hello''"
      by (simp add: ex_env_def ex_msg_def)
  qed
  ultimately show ?thesis by (rule conjI)
qed

subsection \<open>The subject\<close>

text \<open>
  \<open>Process\<close> itself does not look at the subject it resolved: a record whose subject
  template fails to evaluate is turned away with that error before any request, and
  every message handed to the client carries exactly the string the template evaluated
  to.
\<close>

lemma Process_subject_as_evaluated:
  "(\<not> writer (connMut r) \<and> TryString (subject r) msg = Inl err \<longrightarrow>
       Process e r ctx msg = Some \<lparr>proc = r, requests = [], returned = Return [] (Some err)\<rparr>)
   \<and> (\<forall>run nMsg. Process e r ctx msg = Some run \<and> nMsg \<in> set (requests run) \<longrightarrow>
         TryString (subject r) msg = Inr (Subject nMsg))"
proof (intro conjI allI impI)
  assume "\<not> writer (connMut r) \<and> TryString (subject r) msg = Inl err"
  then show "Process e r ctx msg = Some \<lparr>proc = r, requests = [], returned = Return [] (Some err)\<rparr>"
    by (simp add: Process_free Process_locked_def)
next
  fix run nMsg
  assume a: "Process e r ctx msg = Some run \<and> nMsg \<in> set (requests run)"
  then have "Process_locked e r ctx msg = Some (requests run, returned run)"
    by (simp add: Process_request)
  moreover from a have "nMsg \<in> set (requests run)" by simp
  ultimately show "TryString (subject r) msg = Inr (Subject nMsg)"
    by (rule Process_locked_subject)
qed

text \<open>The client's refusal: a request with an empty subject never returns a reply.\<close>

lemma RequestMsgWithContext_refused:
  assumes "refuses_empty_subject e" and "Subject m = []"
  shows "RequestMsgWithContext e nc (WithTimeout ctx d) m = Some (Inl (Failure ''nats: invalid subject''))
         \<or> RequestMsgWithContext e nc (WithTimeout ctx d) m = Some (Inl DeadlineExceeded)"
proof -
  from assms have "broker e nc m = ConnectionFails 0 (Failure ''nats: invalid subject'')"
    by (simp add: refuses_empty_subject_def)
  then show ?thesis
    by (simp add: RequestMsgWithContext_def WithTimeout_def)
qed

text \<open>What a call that returned no error went through.\<close>

lemma Process_locked_success:
  assumes "Process_locked e r ctx msg = Some (reqs, Return batch None)"
  shows "\<exists>subj bytes nc nMsg resp. TryString (subject r) msg = Inr subj
           \<and> attach_headers e r nc msg ((NewMsg subj)\<lparr>Data := bytes\<rparr>) = Inr nMsg
           \<and> RequestMsgWithContext e nc (WithTimeout ctx (timeout r)) nMsg = Some (Inr resp)
           \<and> reqs = [nMsg]"
  using assms
  by (auto simp: Process_locked_def split: sum.splits option.splits)

text \<open>With a handle, a call comes back with a nil batch and an error, or with one record.\<close>

lemma Process_locked_shapes:
  assumes "Process_locked e r ctx msg = Some (reqs, ret)" and "natsConn r = Some nc"
  shows "(\<exists>err. ret = Return [] (Some err)) \<or> (\<exists>out. ret = Return [out] None)"
  using assms
  by (auto simp: Process_locked_def split: sum.splits option.splits)

text \<open>
  C6: with a client that refuses an empty subject, every record that \<open>Process\<close> handles
  successfully has a subject template that resolves to a non-empty string, and that
  string is the subject of the request; a record whose subject template evaluates to
  the empty string is rejected: on a connected processor the call returns a nil batch
  and an error, and no request with an empty subject is ever answered.
\<close>

theorem Process_subject_nonempty:
  assumes "refuses_empty_subject e"
  shows "(\<forall>run batch. Process e r ctx msg = Some run \<and> returned run = Return batch None \<longrightarrow>
            (\<exists>nMsg. requests run = [nMsg] \<and> Subject nMsg \<noteq> []
                \<and> TryString (subject r) msg = Inr (Subject nMsg)))
       \<and> (\<forall>nc. \<not> writer (connMut r) \<and> natsConn r = Some nc \<and> TryString (subject r) msg = Inr [] \<longrightarrow>
            (\<exists>run err. Process e r ctx msg = Some run \<and> returned run = Return [] (Some err)))"
proof -
  have success: "\<exists>nMsg. requests run = [nMsg] \<and> Subject nMsg \<noteq> []
                \<and> TryString (subject r) msg = Inr (Subject nMsg)"
    if a: "Process e r ctx msg = Some run \<and> returned run = Return batch None" for run batch
  proof -
    from a have "Process_locked e r ctx msg = Some (requests run, Return batch None)"
      using Process_request [of e r ctx msg run] by simp
    from Process_locked_success [OF this]
    obtain subj bytes nc nMsg resp where subj: "TryString (subject r) msg = Inr subj"
      and att: "attach_headers e r nc msg ((NewMsg subj)\<lparr>Data := bytes\<rparr>) = Inr nMsg"
      and reply: "RequestMsgWithContext e nc (WithTimeout ctx (timeout r)) nMsg = Some (Inr resp)"
      and reqs: "requests run = [nMsg]"
      by blast
    from att have same: "Subject nMsg = subj"
      by (simp add: attach_headers_keeps NewMsg_def)
    have "Subject nMsg \<noteq> []"
    proof
      assume "Subject nMsg = []"
      with assms have "RequestMsgWithContext e nc (WithTimeout ctx (timeout r)) nMsg
            = Some (Inl (Failure ''nats: invalid subject''))
          \<or> RequestMsgWithContext e nc (WithTimeout ctx (timeout r)) nMsg = Some (Inl DeadlineExceeded)"
        by (rule RequestMsgWithContext_refused)
      with reply show False by simp
    qed
    with reqs subj same show ?thesis by simp
  qed
  have rejected: "\<exists>run err. Process e r ctx msg = Some run \<and> returned run = Return [] (Some err)"
    if b: "\<not> writer (connMut r) \<and> natsConn r = Some nc \<and> TryString (subject r) msg = Inr []" for nc
  proof -
    obtain reqs ret where locked: "Process_locked e r ctx msg = Some (reqs, ret)"
      using Process_locked_returns [of e r ctx msg] by auto
    with b have run: "Process e r ctx msg = Some \<lparr>proc = r, requests = reqs, returned = ret\<rparr>"
      by (simp add: Process_free)
    from b have conn: "natsConn r = Some nc" by simp
    from Process_locked_shapes [OF locked conn]
    show ?thesis
    proof
      assume "\<exists>err. ret = Return [] (Some err)"
      with run show ?thesis by auto
    next
      assume "\<exists>out. ret = Return [out] None"
      then obtain out where "ret = Return [out] None" ..
      with run have "Process e r ctx msg = Some \<lparr>proc = r, requests = reqs, returned = ret\<rparr>
          \<and> returned \<lparr>proc = r, requests = reqs, returned = ret\<rparr> = Return [out] None"
        by simp
      from success [OF this] have "\<exists>s. s \<noteq> [] \<and> TryString (subject r) msg = Inr s"
        by auto
      with b show ?thesis by auto
    qed
  qed
  from success rejected show ?thesis by blast
qed

theorem Process_subject_nonempty_witness:
  "refuses_empty_subject ex_env
   \<and> Process ex_env ex_proc ex_ctx ex_msg =
       Some \<lparr>proc = ex_proc, requests = [ex_request],
             returned = Return [(''hello'', [(''nats_subject'', ''_INBOX.reply'')])] None\<rparr>
   \<and> Subject ex_request = ''orders.42''
   \<and> TryString (subject ex_proc) ex_msg = Inr (Subject ex_request)
   \<and> \<not> writer (connMut ex_proc_blank) \<and> natsConn ex_proc_blank = Some ex_conn
   \<and> TryString (subject ex_proc_blank) ex_msg = Inr []
   \<and> Process ex_env ex_proc_blank ex_ctx ex_msg =
       Some \<lparr>proc = ex_proc_blank,
             requests = [\<lparr>Subject = [], Data = ''hello'', Header = Map.empty\<rparr>],
             returned = Return [] (Some (Failure ''nats: invalid subject''))\<rparr>"
proof -
  have refuses: "refuses_empty_subject ex_env"
    by (simp add: refuses_empty_subject_def ex_env_def)
  have free: "\<not> writer (connMut ex_proc_blank)" and conn: "natsConn ex_proc_blank = Some ex_conn"
    by (simp_all add: ex_proc_blank_def ex_proc_def)
  have blank: "TryString (subject ex_proc_blank) ex_msg = Inr []"
    by (simp add: TryString_def ex_proc_blank_def ex_const_def)
  have run: "Process ex_env ex_proc_blank ex_ctx ex_msg =
       Some \<lparr>proc = ex_proc_blank,
             requests = [\<lparr>Subject = [], Data = ''hello'', Header = Map.empty\<rparr>],
             returned = Return [] (Some (Failure ''nats: invalid subject''))\<rparr>"
    by (simp add: ex_proc_blank_def ex_env_def ex_proc_def ex_conn_def
      ex_const_def ex_msg_def ex_ctx_def
      Process_def Process_locked_def attach_headers_def walk_headers_def
      RequestMsgWithContext_def WithTimeout_def derived_deadline_def RLock_def RUnlock_def
      TryString_def HeadersSupported_def NewMsg_def)
  note inst = Process_subject_nonempty [OF refuses]
  from inst [where r = ex_proc and ctx = ex_ctx and msg = ex_msg] ex_run
  obtain nMsg where "requests \<lparr>proc = ex_proc, requests = [ex_request],
             returned = Return [(''hello'', [(''nats_subject'', ''_INBOX.reply'')])] None\<rparr> = [nMsg]"
    and "Subject nMsg \<noteq> []" and "TryString (subject ex_proc) ex_msg = Inr (Subject nMsg)"
    by fastforce
  then have good: "TryString (subject ex_proc) ex_msg = Inr (Subject ex_request)"
    by simp
  from inst [where r = ex_proc_blank and ctx = ex_ctx and msg = ex_msg] free conn blank
  obtain run' err where "Process ex_env ex_proc_blank ex_ctx ex_msg = Some run'"
    and "returned run' = Return [] (Some err)"
    by blast
  with refuses ex_run good free conn blank run show ?thesis
    by (simp add: ex_request_def)
qed

subsection \<open>The timeout of a constructed processor\<close>

text \<open>The \<^verbatim>\<open>Timeout\<close> option that \<open>connect\<close> passes is the processor's timeout.\<close>

lemma connect_opts_Timeout: "Timeout (timeout p) \<in> set (connect_opts e p)"
  by (simp add: connect_opts_def)

lemma connect_negative_timeout:
  assumes "refuses_negative_timeout e" and "timeout p < 0"
  shows "Connect e (urls p) (connect_opts e p) = Inl (Failure ''nats: timeout invalid'')"
  using assms connect_opts_Timeout [of p e]
  by (auto simp: refuses_negative_timeout_def)

lemma connect_timeout_nonneg:
  assumes "connect e p0 = Some (p, None)" and "refuses_negative_timeout e"
  shows "0 \<le> timeout p"
proof (rule ccontr)
  assume "\<not> 0 \<le> timeout p"
  moreover from assms(1) have same: "timeout p = timeout p0"
    and ok: "\<exists>nc. Connect e (urls p0) (connect_opts e p0) = Inr nc"
    by (auto simp: connect_def split: option.splits sum.splits)
  ultimately have "timeout p0 < 0" by simp
  with assms(2) have "Connect e (urls p0) (connect_opts e p0) = Inl (Failure ''nats: timeout invalid'')"
    by (rule connect_negative_timeout)
  with ok show False by simp
qed

text \<open>
  C7, as amended: the constructor always returns; the timeout of a processor it
  returns is the duration that \<^verbatim>\<open>time.ParseDuration\<close> made of the configured string; no
  line of the constructor looks at its sign, so a string that parses to zero gives a
  processor whose timeout is zero. A string that parses to a negative duration gives
  no processor, because \<^verbatim>\<open>nats.Connect\<close> refuses the negative timeout that \<open>connect\<close>
  hands it; so every stored timeout is zero or positive. A string that does not parse
  gives no processor either.
\<close>

theorem newRequestReplyProcessor_timeout_as_parsed:
  assumes "refuses_negative_timeout e"
  shows "newRequestReplyProcessor e conf mgr \<noteq> None
   \<and> (\<forall>p. newRequestReplyProcessor e conf mgr = Some (Inr p) \<longrightarrow>
         0 \<le> timeout p
         \<and> (\<exists>s. FieldString_timeout conf = Inr s \<and> ParseDuration e s = Inr (timeout p)))
   \<and> (\<forall>s d p. FieldString_timeout conf = Inr s \<and> ParseDuration e s = Inr d \<and> d < 0 \<longrightarrow>
         newRequestReplyProcessor e conf mgr \<noteq> Some (Inr p))
   \<and> (\<forall>s err p. FieldString_timeout conf = Inr s \<and> ParseDuration e s = Inl err \<longrightarrow>
         newRequestReplyProcessor e conf mgr \<noteq> Some (Inr p))"
proof -
  have returns: "newRequestReplyProcessor e conf mgr \<noteq> None"
    by (simp add: newRequestReplyProcessor_def connect_def Lock_def
        split: sum.splits option.splits prod.splits)
  have parsed: "\<exists>s. FieldString_timeout conf = Inr s \<and> ParseDuration e s = Inr (timeout p)"
    if "newRequestReplyProcessor e conf mgr = Some (Inr p)" for p
    using that
    by (auto simp: newRequestReplyProcessor_def connect_def Lock_def
        split: sum.splits option.splits prod.splits if_splits)
  have nonneg: "0 \<le> timeout p" if "newRequestReplyProcessor e conf mgr = Some (Inr p)" for p
    using that assms
    by (auto simp: newRequestReplyProcessor_def
        split: sum.splits option.splits prod.splits if_splits
        dest: connect_timeout_nonneg)
  have negative: "newRequestReplyProcessor e conf mgr \<noteq> Some (Inr p)"
    if "FieldString_timeout conf = Inr s \<and> ParseDuration e s = Inr d \<and> d < 0" for s d p
    using that parsed [of p] nonneg [of p] by auto
  have unparsed: "newRequestReplyProcessor e conf mgr \<noteq> Some (Inr p)"
    if "FieldString_timeout conf = Inr s \<and> ParseDuration e s = Inl err" for s err p
    using that parsed [of p] by auto
  from returns parsed nonneg negative unparsed show ?thesis by blast
qed

theorem newRequestReplyProcessor_timeout_as_parsed_witness:
  "refuses_negative_timeout ex_env
   \<and> FieldString_timeout ex_conf = Inr ''3s'' \<and> ParseDuration ex_env ''3s'' = Inr 3000000000
   \<and> (\<exists>p. newRequestReplyProcessor ex_env ex_conf ex_mgr = Some (Inr p) \<and> timeout p = 3000000000)
   \<and> FieldString_timeout ex_conf_negative = Inr ''-1s''
   \<and> ParseDuration ex_env ''-1s'' = Inr (- 1000000000) \<and> (- 1000000000 :: int) < 0
   \<and> newRequestReplyProcessor ex_env ex_conf_negative ex_mgr
        = Some (Inl (Failure ''nats: timeout invalid''))"
proof -
  have refuses: "refuses_negative_timeout ex_env"
    by (auto simp: refuses_negative_timeout_def ex_env_def list_ex_iff negative_timeout_def
        intro!: bexI [where x = "Timeout d" for d])
  have h1: "FieldString_timeout ex_conf = Inr ''3s''"
    by (simp add: ex_conf_def)
  have h2: "ParseDuration ex_env ''3s'' = Inr 3000000000"
    by (simp add: ex_env_def)
  have "\<exists>p. newRequestReplyProcessor ex_env ex_conf ex_mgr = Some (Inr p)"
    by (simp add: newRequestReplyProcessor_def connect_def connect_opts_def Lock_def Unlock_def
        negative_timeout_def ex_env_def ex_conf_def ex_mgr_def)
  then obtain p where p: "newRequestReplyProcessor ex_env ex_conf ex_mgr = Some (Inr p)" ..
  note inst = newRequestReplyProcessor_timeout_as_parsed [OF refuses]
  from inst [where conf = ex_conf and mgr = ex_mgr] p
  obtain s where "FieldString_timeout ex_conf = Inr s" and "ParseDuration ex_env s = Inr (timeout p)"
    by blast
  with h1 h2 have t: "timeout p = 3000000000" by simp
  have n1: "FieldString_timeout ex_conf_negative = Inr ''-1s''"
    by (simp add: ex_conf_negative_def)
  have n2: "ParseDuration ex_env ''-1s'' = Inr (- 1000000000)"
    by (simp add: ex_env_def)
  have n3: "newRequestReplyProcessor ex_env ex_conf_negative ex_mgr
        = Some (Inl (Failure ''nats: timeout invalid''))"
    by (simp add: newRequestReplyProcessor_def connect_def connect_opts_def Lock_def Unlock_def
        negative_timeout_def ex_env_def ex_conf_negative_def ex_conf_def ex_mgr_def)
  from refuses h1 h2 p t n1 n2 n3 show ?thesis by auto
qed

text \<open>
  The claim as it stands fails for the timeout string \<^verbatim>\<open>0s\<close>: it parses to zero, the
  connection is made, and the constructor returns a processor whose timeout is zero.
\<close>

theorem newRequestReplyProcessor_zero_timeout_counterexample:
  "FieldString_timeout ex_conf_zero = Inr ''0s'' \<and> ParseDuration ex_env ''0s'' = Inr 0
   \<and> map_option (map_sum id timeout) (newRequestReplyProcessor ex_env ex_conf_zero ex_mgr)
       = Some (Inr 0)"
  by (simp add: newRequestReplyProcessor_def connect_def connect_opts_def Lock_def Unlock_def
      negative_timeout_def ex_env_def ex_conf_zero_def ex_conf_def ex_mgr_def)

subsection \<open>A header template that fails\<close>

text \<open>
  C8, as amended: on a connection with header support, once the subject has evaluated
  and the message has serialised, the first explicit header (in the order of the loop)
  whose template fails ends the call: \<open>Process\<close> returns the error that names this
  header and wraps the template's error, a nil batch, and has issued no request.
\<close>

theorem Process_header_failure:
  assumes "\<not> writer (connMut r)" and "natsConn r = Some nc" and "HeadersSupported nc"
    and "TryString (subject r) msg = Inr subj" and "AsBytes e msg = Inr bytes"
    and "headers r = pre @ (k, v) # post"
    and "\<forall>kt \<in> set pre. \<exists>s. TryString (snd kt) msg = Inr s"
    and "TryString v msg = Inl err"
  shows "Process e r ctx msg =
           Some \<lparr>proc = r, requests = [], returned = Return [] (Some (HeaderInterpolation k err))\<rparr>"
proof -
  have "range_headers (headers r) msg h = Inl (HeaderInterpolation k err)" for h
    unfolding assms(6) using assms(7,8) by (rule range_headers_first_failure)
  then have "attach_headers e r nc msg m = Inl (HeaderInterpolation k err)" for m
    using assms(3) by (simp add: attach_headers_def)
  with assms(1,2,4,5) show ?thesis
    by (simp add: Process_free Process_locked_def)
qed

theorem Process_header_failure_witness:
  "\<not> writer (connMut ex_proc_span) \<and> natsConn ex_proc_span = Some ex_conn \<and> HeadersSupported ex_conn
   \<and> TryString (subject ex_proc_span) ex_msg_id = Inr ''orders.42''
   \<and> AsBytes ex_env ex_msg_id = Inr ''hello''
   \<and> headers ex_proc_span =
       [(''Content-Type'', ex_const ''application/json'')] @ (''X-Span'', ex_meta ''span'') # []
   \<and> TryString (ex_const ''application/json'') ex_msg_id = Inr ''application/json''
   \<and> TryString (ex_meta ''span'') ex_msg_id = Inl (Failure ''metadata value span not found'')
   \<and> Process ex_env ex_proc_span ex_ctx ex_msg_id =
       Some \<lparr>proc = ex_proc_span, requests = [],
             returned = Return [] (Some (HeaderInterpolation ''X-Span''
                                          (Failure ''metadata value span not found'')))\<rparr>"
proof -
  have h1: "\<not> writer (connMut ex_proc_span)" and h2: "natsConn ex_proc_span = Some ex_conn"
    by (simp_all add: ex_proc_span_def ex_proc_def)
  have h4: "TryString (subject ex_proc_span) ex_msg_id = Inr ''orders.42''"
    using ex_subject_msg_id by (simp add: ex_proc_span_def ex_proc_def)
  have h5: "AsBytes ex_env ex_msg_id = Inr ''hello''"
    by (simp add: ex_env_def ex_msg_id_def)
  have h6: "headers ex_proc_span =
      [(''Content-Type'', ex_const ''application/json'')] @ (''X-Span'', ex_meta ''span'') # []"
    by (simp add: ex_proc_span_def ex_proc_def)
  have ok: "TryString (ex_const ''application/json'') ex_msg_id = Inr ''application/json''"
    by (simp add: TryString_def ex_const_def)
  then have h7: "\<forall>kt \<in> set [(''Content-Type'', ex_const ''application/json'')].
      \<exists>s. TryString (snd kt) ex_msg_id = Inr s"
    by simp
  have h8: "TryString (ex_meta ''span'') ex_msg_id = Inl (Failure ''metadata value span not found'')"
    by (simp add: TryString_def ex_meta_def ex_msg_id_def)
  from Process_header_failure [OF h1 h2 ex_conn_headers h4 h5 h6 h7 h8, of ex_ctx]
    h1 h2 ex_conn_headers h4 h5 h6 ok h8
  show ?thesis by blast
qed

text \<open>
  The claim as it stands fails for a record against which the subject template fails as
  well: \<^verbatim>\<open>X-Span\<close> cannot be evaluated against the message, the connection supports
  headers, and the error \<open>Process\<close> returns is the subject's, which names no header.
\<close>

theorem Process_header_failure_counterexample:
  "natsConn ex_proc_span = Some ex_conn \<and> HeadersSupported ex_conn
   \<and> headers ex_proc_span =
       [(''Content-Type'', ex_const ''application/json''), (''X-Span'', ex_meta ''span'')]
   \<and> TryString (ex_meta ''span'') ex_msg_bare = Inl (Failure ''metadata value span not found'')
   \<and> Process ex_env ex_proc_span ex_ctx ex_msg_bare =
       Some \<lparr>proc = ex_proc_span, requests = [],
             returned = Return [] (Some (Failure ''metadata value id not found''))\<rparr>"
proof -
  have "TryString (ex_meta ''span'') ex_msg_bare = Inl (Failure ''metadata value span not found'')"
    by (simp add: TryString_def ex_meta_def ex_msg_bare_def)
  moreover have "Process ex_env ex_proc_span ex_ctx ex_msg_bare =
       Some \<lparr>proc = ex_proc_span, requests = [],
             returned = Return [] (Some (Failure ''metadata value id not found''))\<rparr>"
    by (simp add: Process_def Process_locked_def RLock_def RUnlock_def TryString_def
        ex_proc_span_def ex_proc_def ex_subject_def ex_meta_def ex_msg_bare_def)
  ultimately show ?thesis
    using ex_conn_headers by (simp add: ex_proc_span_def ex_proc_def)
qed

subsection \<open>Close\<close>

text \<open>
  C9: \<open>Close\<close> is idempotent and never fails. Called while nobody holds the mutex, it
  returns nil, leaves the handle cleared and everything else as it was, and has called
  \<^verbatim>\<open>Close()\<close> on the handle it found, if any; called again on the processor it left,
  it returns nil, touches no handle and leaves that processor as it is, so two calls
  leave what one call leaves.
\<close>

theorem Close_idempotent:
  assumes "\<not> writer (connMut r)" and "readers (connMut r) = 0"
  shows "Close r = Some \<lparr>closed_proc = r\<lparr>natsConn := None\<rparr>,
                        closed_conns = (case natsConn r of None \<Rightarrow> [] | Some nc \<Rightarrow> [nc]),
                        closed_err = None\<rparr>
       \<and> Close (r\<lparr>natsConn := None\<rparr>) =
           Some \<lparr>closed_proc = r\<lparr>natsConn := None\<rparr>, closed_conns = [], closed_err = None\<rparr>"
proof -
  have first: "Close r = Some \<lparr>closed_proc = r\<lparr>natsConn := None\<rparr>,
                        closed_conns = (case natsConn r of None \<Rightarrow> [] | Some nc \<Rightarrow> [nc]),
                        closed_err = None\<rparr>"
    using assms by (rule Close_free)
  have "\<not> writer (connMut (r\<lparr>natsConn := None\<rparr>))" and "readers (connMut (r\<lparr>natsConn := None\<rparr>)) = 0"
    using assms by simp_all
  then have "Close (r\<lparr>natsConn := None\<rparr>) =
      Some \<lparr>closed_proc = r\<lparr>natsConn := None\<rparr>\<lparr>natsConn := None\<rparr>,
            closed_conns = (case natsConn (r\<lparr>natsConn := None\<rparr>) of None \<Rightarrow> [] | Some nc \<Rightarrow> [nc]),
            closed_err = None\<rparr>"
    by (rule Close_free)
  then have second: "Close (r\<lparr>natsConn := None\<rparr>) =
           Some \<lparr>closed_proc = r\<lparr>natsConn := None\<rparr>, closed_conns = [], closed_err = None\<rparr>"
    by simp
  from first second show ?thesis by (rule conjI)
qed

theorem Close_idempotent_witness:
  "\<not> writer (connMut ex_proc) \<and> readers (connMut ex_proc) = 0
   \<and> Close ex_proc = Some \<lparr>closed_proc = ex_proc\<lparr>natsConn := None\<rparr>,
                        closed_conns = [ex_conn], closed_err = None\<rparr>
   \<and> Close (ex_proc\<lparr>natsConn := None\<rparr>) =
       Some \<lparr>closed_proc = ex_proc\<lparr>natsConn := None\<rparr>, closed_conns = [], closed_err = None\<rparr>"
proof -
  from Close_idempotent [OF ex_proc_free] ex_proc_free show ?thesis
    by (simp add: ex_proc_conn)
qed

subsection \<open>Process leaves the processor alone\<close>

text \<open>
  C10: every \<open>Process\<close> call that comes back, with a batch, an error or a panic, leaves
  the processor exactly as it found it: the handle, every configuration field and the
  mutex. It comes back whenever no writer holds the mutex.
\<close>

theorem Process_keeps_processor:
  "(\<forall>run. Process e r ctx msg = Some run \<longrightarrow> proc run = r)
   \<and> (\<not> writer (connMut r) \<longrightarrow> (\<exists>run. Process e r ctx msg = Some run))"
proof (intro conjI allI impI)
  fix run
  assume run: "Process e r ctx msg = Some run"
  then obtain mu where mu: "RLock (connMut r) = Some mu"
    by (auto simp: Process_def split: option.splits)
  from mu have "RUnlock mu = connMut r" by (rule RUnlock_RLock)
  with run mu show "proc run = r"
    by (auto simp: Process_def split: option.splits)
next
  assume "\<not> writer (connMut r)"
  then show "\<exists>run. Process e r ctx msg = Some run"
    using Process_locked_returns [of e r ctx msg]
    by (auto simp: Process_free split: option.splits)
qed

theorem Process_keeps_processor_witness:
  "\<not> writer (connMut ex_proc)
   \<and> (\<exists>run. Process ex_env ex_proc ex_ctx ex_msg = Some run \<and> proc run = ex_proc)"
proof -
  from Process_keeps_processor [of ex_env ex_proc ex_ctx ex_msg] ex_proc_free(1)
  show ?thesis by blast
qed

end
